theory Spec2Isabelle
  imports Complex_Main
begin

section \<open>Values shared by the adapters\<close>

text \<open>
  Every raise of the Python sources, and every failure of a backend operation they call,
  is a value of \<open>error\<close>. \<open>NonFinite\<close> stands for a backend logarithm of a
  non-positive number: TensorFlow and PyTorch do not raise there, they produce
  \<open>-inf\<close> or \<open>nan\<close>, which no real number represents. A \<open>ValueError\<close>
  carries its message, since Python raises it both for a logarithm outside its domain
  and for a tuple assignment of the wrong length.
\<close>

datatype error =
    ValueError string
  | AssertionError
  | TypeError
  | IndexError
  | KeyError
  | RuntimeError
  | InvalidArgumentError
  | NonFinite
  | AttributeError
  | ArityError
  | DuplicateScopeError

text \<open>
  A backend tensor: its static shape, its elements in row-major order, and the
  \<open>_batch_rank\<close> attribute the graph functions attach to it (\<open>None\<close> while
  the attribute has never been set). Elements are idealised as real numbers.
\<close>

record tensor =
  shape :: "nat list"
  elems :: "real list"
  batch_rank :: "nat option"

text \<open>
  What the adapters read from their \<open>action_space\<close>. The Space classes are not among
  the sources, so each attribute or call result the adapters use is a field:
  \<open>space_shape\<close> is \<open>action_space.shape\<close>,
  \<open>shape_with_category_rank\<close> is \<open>get_shape(with_category_rank=True)\<close> and
  \<open>full_rank\<close> is \<open>len(get_shape(with_batch_rank=True, with_time_rank=True))\<close>.
\<close>

record space =
  space_shape :: "nat list"
  flat_dim :: nat
  num_categories :: nat
  flat_dim_with_categories :: nat
  shape_with_category_rank :: "nat list"
  full_rank :: nat

datatype data_op = DataOpTuple "tensor list"

type_synonym beta_result = "data_op option \<times> tensor option \<times> tensor option"
type_synonym categorical_result = "tensor \<times> tensor option \<times> tensor option"

section \<open>Backend operations\<close>

definition rank :: "tensor \<Rightarrow> nat" where
  "rank t = length (shape t)"

text \<open>An element-wise operation returns a fresh tensor: same shape, no attribute.\<close>

definition map_tensor :: "(real \<Rightarrow> real) \<Rightarrow> tensor \<Rightarrow> tensor" where
  "map_tensor f t = \<lparr>shape = shape t, elems = map f (elems t), batch_rank = None\<rparr>"

text \<open>The vectors along the last axis: the row-major elements cut into runs of \<open>n\<close>.\<close>

function rows :: "nat \<Rightarrow> 'a list \<Rightarrow> 'a list list" where
  "rows n xs = (if n = 0 \<or> xs = [] then [] else take n xs # rows n (drop n xs))"
  by pat_completeness auto
termination
  by (relation "measure (\<lambda>(n, xs). length xs)") auto

declare rows.simps [simp del]

text \<open>Python's \<open>math.log\<close> raises \<open>ValueError\<close> outside its domain.\<close>

definition py_log :: "real \<Rightarrow> error + real" where
  "py_log x = (if x \<le> 0 then Inl (ValueError ''math domain error'') else Inr (ln x))"

text \<open>
  \<open>tf.clip_by_value\<close> takes the minimum with the upper bound first and the maximum
  with the lower bound second; \<open>torch.clamp\<close> works in the other order. The two
  differ only when the lower bound exceeds the upper one.
\<close>

definition tf_clip_by_value :: "tensor \<Rightarrow> real \<Rightarrow> real \<Rightarrow> tensor" where
  "tf_clip_by_value t clip_value_min clip_value_max =
     map_tensor (\<lambda>x. max (min x clip_value_max) clip_value_min) t"

definition torch_clamp :: "tensor \<Rightarrow> real \<Rightarrow> real \<Rightarrow> tensor" where
  "torch_clamp t clamp_min clamp_max =
     map_tensor (\<lambda>x. min (max x clamp_min) clamp_max) t"

text \<open>\<open>tf.math.log\<close> and \<open>torch.log\<close>, element-wise.\<close>

definition backend_log :: "tensor \<Rightarrow> error + tensor" where
  "backend_log t =
     (if list_all (\<lambda>x. 0 < x) (elems t) then Inr (map_tensor ln t) else Inl NonFinite)"

definition softmax_row :: "real list \<Rightarrow> real list" where
  "softmax_row r = map (\<lambda>x. exp x / sum_list (map exp r)) r"

text \<open>\<open>tf.nn.softmax(logits, axis=-1)\<close>: refused on a tensor of rank 0.\<close>

definition tf_softmax :: "tensor \<Rightarrow> error + tensor" where
  "tf_softmax t =
     (if shape t = [] then Inl InvalidArgumentError
      else Inr \<lparr>shape = shape t,
                elems = concat (map softmax_row (rows (last (shape t)) (elems t))),
                batch_rank = None\<rparr>)"

text \<open>\<open>torch.softmax(input, dim=-1)\<close>: a tensor of rank 0 is treated as one vector.\<close>

definition torch_softmax :: "tensor \<Rightarrow> tensor" where
  "torch_softmax t =
     \<lparr>shape = shape t,
      elems = concat (map softmax_row
                (rows (if shape t = [] then 1 else last (shape t)) (elems t))),
      batch_rank = None\<rparr>"

text \<open>
  The part of every last-axis vector that starts at \<open>start\<close> and has \<open>len\<close>
  elements (fewer where the vector ends earlier).
\<close>

definition slice_last :: "nat \<Rightarrow> nat \<Rightarrow> tensor \<Rightarrow> tensor" where
  "slice_last start len t =
     \<lparr>shape = butlast (shape t) @ [len],
      elems = concat (map (\<lambda>r. take len (drop start r)) (rows (last (shape t)) (elems t))),
      batch_rank = None\<rparr>"

text \<open>
  \<open>tf.split(value, num_or_size_splits=2, axis=-1)\<close>: two halves along the last axis,
  refused when there is no axis or its size is odd.
\<close>

definition tf_split2 :: "tensor \<Rightarrow> error + (tensor \<times> tensor)" where
  "tf_split2 t =
     (if shape t = [] \<or> last (shape t) mod 2 \<noteq> 0 then Inl InvalidArgumentError
      else let h = last (shape t) div 2 in Inr (slice_last 0 h t, slice_last h h t))"

text \<open>
  \<open>torch.split(tensor, split_size, dim=-1)\<close>: chunks of \<open>split_size\<close> along the
  last axis, the last one shorter when the size is not a multiple. A split size of 0 is
  accepted only for an axis of size 0; there is always at least one chunk.
\<close>

definition torch_split :: "tensor \<Rightarrow> nat \<Rightarrow> error + tensor list" where
  "torch_split t split_size =
     (if shape t = [] then Inl IndexError
      else let d = last (shape t) in
        if split_size = 0 then (if d = 0 then Inr [t] else Inl RuntimeError)
        else Inr (map (\<lambda>i. slice_last (i * split_size) (min split_size (d - i * split_size)) t)
                    [0 ..< max ((d + split_size - 1) div split_size) 1]))"

text \<open>\<open>squeeze\<close> on the last axis, refused unless that axis has size 1.\<close>

definition tf_squeeze_last :: "tensor \<Rightarrow> error + tensor" where
  "tf_squeeze_last t =
     (if shape t \<noteq> [] \<and> last (shape t) = 1
      then Inr \<lparr>shape = butlast (shape t), elems = elems t, batch_rank = None\<rparr>
      else Inl InvalidArgumentError)"

section \<open>BetaDistributionAdapter\<close>

text \<open>
  \<open>get_units_and_shape\<close>: twice the flat dimension, and the action-space shape with
  its last dimension doubled (\<open>(2,)\<close> for a scalar action space).
\<close>

definition Beta_get_units_and_shape :: "space \<Rightarrow> nat \<times> nat list" where
  "Beta_get_units_and_shape action_space =
     (let units = 2 * flat_dim action_space;
          new_shape = (if space_shape action_space = [] then [2]
                       else butlast (space_shape action_space)
                            @ [last (space_shape action_space) * 2])
      in (units, new_shape))"

text \<open>
  The stabilisation both backend branches apply to the clipped outputs:
  \<open>log(exp(parameters) + 1.0) + 1.0\<close>. \<open>Beta_log_argument\<close> is the tensor handed
  to the backend logarithm.
\<close>

definition Beta_log_argument :: "tensor \<Rightarrow> tensor" where
  "Beta_log_argument parameters = map_tensor (\<lambda>x. x + 1) (map_tensor exp parameters)"

definition Beta_stabilize :: "tensor \<Rightarrow> error + tensor" where
  "Beta_stabilize parameters =
     (case backend_log (Beta_log_argument parameters) of
        Inl e \<Rightarrow> Inl e
      | Inr l \<Rightarrow> Inr (map_tensor (\<lambda>x. x + 1) l))"

text \<open>The TensorFlow branch of \<open>_graph_fn_get_parameters_from_adapter_outputs\<close>.\<close>

definition Beta_parameters_tf :: "real \<Rightarrow> nat \<Rightarrow> tensor \<Rightarrow> error + beta_result" where
  "Beta_parameters_tf SMALL_NUMBER full_action_space_rank adapter_outputs =
     (case py_log SMALL_NUMBER of
        Inl e \<Rightarrow> Inl e
      | Inr l \<Rightarrow>
     (case Beta_stabilize (tf_clip_by_value adapter_outputs l (- l)) of
        Inl e \<Rightarrow> Inl e
      | Inr parameters \<Rightarrow>
     (case tf_split2 parameters of
        Inl e \<Rightarrow> Inl e
      | Inr (alpha, beta) \<Rightarrow>
     (case (if full_action_space_rank \<noteq> rank alpha then
              (if rank alpha \<noteq> full_action_space_rank + 1 then Inl AssertionError
               else (case tf_squeeze_last alpha of
                       Inl e \<Rightarrow> Inl e
                     | Inr alpha' \<Rightarrow>
                    (case tf_squeeze_last beta of
                       Inl e \<Rightarrow> Inl e
                     | Inr beta' \<Rightarrow> Inr (alpha', beta'))))
            else Inr (alpha, beta)) of
        Inl e \<Rightarrow> Inl e
      | Inr (alpha, beta) \<Rightarrow>
          Inr (Some (DataOpTuple [alpha\<lparr>batch_rank := Some 0\<rparr>,
                                  beta\<lparr>batch_rank := Some 0\<rparr>]),
               None, None)))))"

text \<open>
  The PyTorch branch. The split size is half of the first dimension
  (\<open>int(parameters.shape[0] / 2)\<close>), the result must unpack into exactly two chunks,
  and the rank test then evaluates \<open>list(alpha.size)\<close>: \<open>size\<close> is a method of a
  torch tensor, not iterable, so the call raises \<open>TypeError\<close>.
\<close>

definition Beta_parameters_torch :: "real \<Rightarrow> nat \<Rightarrow> tensor \<Rightarrow> error + beta_result" where
  "Beta_parameters_torch SMALL_NUMBER full_action_space_rank adapter_outputs =
     (case py_log SMALL_NUMBER of
        Inl e \<Rightarrow> Inl e
      | Inr l \<Rightarrow>
     (case Beta_stabilize (torch_clamp adapter_outputs l (- l)) of
        Inl e \<Rightarrow> Inl e
      | Inr parameters \<Rightarrow>
     (case shape parameters of
        [] \<Rightarrow> Inl IndexError
      | b # _ \<Rightarrow>
     (case torch_split parameters (b div 2) of
        Inl e \<Rightarrow> Inl e
      | Inr chunks \<Rightarrow>
     (case chunks of
        [alpha, beta] \<Rightarrow> Inl TypeError
      | _ \<Rightarrow> Inl (ValueError ''values to unpack''))))))"

definition Beta_graph_fn_get_parameters_from_adapter_outputs ::
  "string \<Rightarrow> real \<Rightarrow> space \<Rightarrow> tensor \<Rightarrow> error + beta_result" where
  "Beta_graph_fn_get_parameters_from_adapter_outputs backend SMALL_NUMBER action_space
       adapter_outputs =
     (let parameters = None;
          full_action_space_rank = full_rank action_space
      in if backend = ''tf'' then
           Beta_parameters_tf SMALL_NUMBER full_action_space_rank adapter_outputs
         else if backend = ''pytorch'' then
           Beta_parameters_torch SMALL_NUMBER full_action_space_rank adapter_outputs
         else Inr (parameters, None, None))"

section \<open>CategoricalDistributionAdapter\<close>

definition Categorical_get_units_and_shape :: "space \<Rightarrow> nat \<times> nat list" where
  "Categorical_get_units_and_shape action_space =
     (let units = flat_dim_with_categories action_space;
          new_shape = shape_with_category_rank action_space
      in (units, new_shape))"

text \<open>
  \<open>_graph_fn_get_parameters_from_adapter_outputs\<close>. Under TensorFlow the function
  tags its own input tensor, which it returns as the parameters.
  \<open>SMALL_NUMBER_TORCH\<close> is the one-element tensor the PyTorch branch broadcasts
  against the probabilities; it is given by its element.
\<close>

definition Categorical_graph_fn_get_parameters_from_adapter_outputs ::
  "string \<Rightarrow> real \<Rightarrow> real \<Rightarrow> tensor \<Rightarrow> error + categorical_result" where
  "Categorical_graph_fn_get_parameters_from_adapter_outputs backend SMALL_NUMBER
       SMALL_NUMBER_TORCH adapter_outputs =
     (if backend = ''tf'' then
        (let parameters = adapter_outputs\<lparr>batch_rank := Some 0\<rparr> in
         case tf_softmax parameters of
           Inl e \<Rightarrow> Inl e
         | Inr sm \<Rightarrow>
             (let probs = map_tensor (\<lambda>x. max x SMALL_NUMBER) sm in
              case backend_log probs of
                Inl e \<Rightarrow> Inl e
              | Inr log_probs \<Rightarrow>
                  Inr (parameters, Some (probs\<lparr>batch_rank := Some 0\<rparr>),
                       Some (log_probs\<lparr>batch_rank := Some 0\<rparr>))))
      else if backend = ''pytorch'' then
        (let parameters = adapter_outputs;
             probs = map_tensor (\<lambda>x. max x SMALL_NUMBER_TORCH) (torch_softmax parameters)
         in case backend_log probs of
              Inl e \<Rightarrow> Inl e
            | Inr log_probs \<Rightarrow> Inr (parameters, Some probs, Some log_probs))
      else Inr (adapter_outputs, None, None))"

section \<open>Layer\<close>

text \<open>
  The descriptor of an API method as \<open>define_api_method\<close> receives it: the function
  and the two options.
\<close>

record 'v yarl_api_method =
  func :: "'v list \<Rightarrow> 'v list"
  flatten_ops :: bool
  split_ops :: bool

record 'v yarl_component =
  yarl_scope :: string
  yarl_api_methods :: "string \<rightharpoonup> 'v yarl_api_method"
  yarl_kwargs :: "string \<rightharpoonup> string"

text \<open>
  Modelled from the spec: the yarl \<open>Component\<close> class, whose constructor and
  \<open>define_api_method\<close> the Layer calls, is not among the sources. A component is
  created with its scope and no API method, and \<open>define_api_method\<close> "registers a
  descriptor without executing body".
\<close>

definition Component_init :: "string \<Rightarrow> (string \<rightharpoonup> string) \<Rightarrow> 'v yarl_component" where
  "Component_init scope_arg kwargs =
     \<lparr>yarl_scope = scope_arg, yarl_api_methods = Map.empty, yarl_kwargs = kwargs\<rparr>"

definition define_api_method ::
  "'v yarl_component \<Rightarrow> string \<Rightarrow> ('v list \<Rightarrow> 'v list) \<Rightarrow> bool \<Rightarrow> bool \<Rightarrow> 'v yarl_component" where
  "define_api_method self name f flatten split =
     self\<lparr>yarl_api_methods :=
       (yarl_api_methods self)(name \<mapsto> \<lparr>func = f, flatten_ops = flatten, split_ops = split\<rparr>)\<rparr>"

text \<open>\<open>Layer._graph_fn_apply(*inputs)\<close> of the base class.\<close>

definition Layer_graph_fn_apply :: "'v list \<Rightarrow> 'v list" where
  "Layer_graph_fn_apply inputs = inputs"

text \<open>
  \<open>Layer.__init__(**kwargs)\<close>. The first argument is what \<open>self._graph_fn_apply\<close>
  resolves to: the override of a subclass, or \<open>Layer_graph_fn_apply\<close>.
\<close>

definition Layer_init :: "('v list \<Rightarrow> 'v list) \<Rightarrow> (string \<rightharpoonup> string) \<Rightarrow> 'v yarl_component" where
  "Layer_init graph_fn_apply kwargs =
     (let self = Component_init
                   (case kwargs ''scope'' of None \<Rightarrow> ''layer'' | Some s \<Rightarrow> s)
                   (kwargs(''scope'' := None))
      in define_api_method self ''apply'' graph_fn_apply True True)"

section \<open>Component tree and API methods\<close>

text \<open>
  Modelled from the spec: the \<open>Component\<close> class, the \<open>rlgraph_api\<close> decorator, the
  dummy components and the \<open>ComponentTest\<close> driver are not among the sources; only the
  tests that use them are. A component is "an addressable, scoped node owning zero or
  more sub-components" and "zero or more API methods". The body of an API method
  receives the call context of its component, through which it calls the API methods of
  the sub-components by scope, and the values passed to it; it returns the values it
  produces. Values are real numbers.
\<close>

type_synonym call_context = "string \<Rightarrow> string \<Rightarrow> real list \<Rightarrow> error + real list"

type_synonym api_body = "call_context \<Rightarrow> real list \<Rightarrow> error + real list"

datatype component =
  Component (scope: string) (sub_components: "component list")
    (api_methods: "(string \<times> api_body) list")

lemma size_sub_component:
  "find P (sub_components c) = Some s \<Longrightarrow> size s < size c"
proof -
  assume "find P (sub_components c) = Some s"
  then have "s \<in> set (sub_components c)"
    by (auto simp: find_Some_iff)
  then show ?thesis
    by (cases c) (auto simp: less_Suc_eq_le size_list_estimation')
qed

text \<open>
  Invoking an API method: the body runs with a context that looks the callee up among
  the sub-components (\<open>self.sub_components[scope]\<close>, a \<open>KeyError\<close> when absent) and
  invokes its method in turn.
\<close>

function call_api :: "component \<Rightarrow> string \<Rightarrow> real list \<Rightarrow> error + real list" where
  "call_api c name args =
     (case map_of (api_methods c) name of
        None \<Rightarrow> Inl AttributeError
      | Some body \<Rightarrow>
          body (\<lambda>sub_scope method sub_args.
                  case find (\<lambda>s. scope s = sub_scope) (sub_components c) of
                    None \<Rightarrow> Inl KeyError
                  | Some s \<Rightarrow> call_api s method sub_args) args)"
  by pat_completeness auto
termination
  by (relation "measure (\<lambda>(c, name, args). size c)") (auto dest: size_sub_component)

declare call_api.simps [simp del]

text \<open>
  \<open>add_components(*subs)\<close> "attaches child components under the current scope, raising
  a DuplicateScopeError if a sibling with the same scope already exists", in addition
  order.
\<close>

fun add_components :: "component \<Rightarrow> component list \<Rightarrow> error + component" where
  "add_components c [] = Inr c"
| "add_components c (s # subs) =
     (if scope s \<in> set (map scope (sub_components c)) then Inl DuplicateScopeError
      else add_components (Component (scope c) (sub_components c @ [s]) (api_methods c)) subs)"

text \<open>The decorator \<open>rlgraph_api(component=c)\<close> registers the body under its name.\<close>

definition rlgraph_api :: "component \<Rightarrow> string \<Rightarrow> api_body \<Rightarrow> component" where
  "rlgraph_api c name body =
     Component (scope c) (sub_components c) (api_methods c @ [(name, body)])"

text \<open>
  The two dummy components of the tests: a 1-to-1 component whose \<open>run\<close> adds 1.0 to
  its input, and a 2-to-1 component whose \<open>run\<close> adds its two inputs. A call with
  another number of arguments is an \<open>ArityError\<close>.
\<close>

definition Dummy1To1 :: "string \<Rightarrow> component" where
  "Dummy1To1 scope_arg =
     Component scope_arg []
       [(''run'', \<lambda>self args. case args of [input] \<Rightarrow> Inr [input + 1] | _ \<Rightarrow> Inl ArityError)]"

definition Dummy2To1 :: "string \<Rightarrow> component" where
  "Dummy2To1 scope_arg =
     Component scope_arg []
       [(''run'', \<lambda>self args. case args of [input1, input2] \<Rightarrow> Inr [input1 + input2]
                               | _ \<Rightarrow> Inl ArityError)]"

text \<open>
  The build: "each top-level API method exposed on the root component becomes one named,
  independently invocable entry point". \<open>ComponentTest_test\<close> is the driver's
  \<open>test((name, inputs))\<close>: it builds the component and invokes the named entry point.
\<close>

definition build :: "component \<Rightarrow> (string \<times> (real list \<Rightarrow> error + real list)) list" where
  "build root_component =
     map (\<lambda>(name, body). (name, call_api root_component name)) (api_methods root_component)"

definition ComponentTest_test :: "component \<Rightarrow> string \<Rightarrow> real list \<Rightarrow> error + real list" where
  "ComponentTest_test c name inputs =
     (case map_of (build c) name of
        None \<Rightarrow> Inl AttributeError
      | Some entry_point \<Rightarrow> entry_point inputs)"

text \<open>
  \<open>test_connecting_two_1to1_components\<close>: the body of \<open>run\<close> calls the two
  sub-components it closes over, one after the other.
\<close>

definition two_1to1_run :: "component \<Rightarrow> component \<Rightarrow> api_body" where
  "two_1to1_run sub_comp1 sub_comp2 self args =
     (case args of
        [input] \<Rightarrow>
          (case call_api sub_comp1 ''run'' [input] of
             Inl e \<Rightarrow> Inl e
           | Inr out \<Rightarrow> call_api sub_comp2 ''run'' out)
      | _ \<Rightarrow> Inl ArityError)"

definition test_connecting_two_1to1_components :: "real \<Rightarrow> error + real list" where
  "test_connecting_two_1to1_components input =
     (let core = Component ''container'' [] [];
          sub_comp1 = Dummy1To1 ''comp1'';
          sub_comp2 = Dummy1To1 ''comp2''
      in case add_components core [sub_comp1, sub_comp2] of
           Inl e \<Rightarrow> Inl e
         | Inr core \<Rightarrow>
             ComponentTest_test (rlgraph_api core ''run'' (two_1to1_run sub_comp1 sub_comp2))
               ''run'' [input])"

text \<open>
  \<open>test_diamond_4x_sub_component_setup\<close>: the body of \<open>run\<close> reaches the
  sub-components through \<open>self_.sub_components\<close>.
\<close>

definition container_run :: api_body where
  "container_run self args =
     (case args of
        [input1, input2] \<Rightarrow>
          (case self ''A'' ''run'' [input1] of
             Inl e \<Rightarrow> Inl e
           | Inr in1_past_a \<Rightarrow>
          (case self ''A'' ''run'' [input2] of
             Inl e \<Rightarrow> Inl e
           | Inr in2_past_a \<Rightarrow>
          (case self ''B'' ''run'' in1_past_a of
             Inl e \<Rightarrow> Inl e
           | Inr past_b \<Rightarrow>
          (case self ''C'' ''run'' in2_past_a of
             Inl e \<Rightarrow> Inl e
           | Inr past_c \<Rightarrow> self ''D'' ''run'' (past_b @ past_c)))))
      | _ \<Rightarrow> Inl ArityError)"

definition test_diamond_4x_sub_component_setup :: "real \<Rightarrow> real \<Rightarrow> error + real list" where
  "test_diamond_4x_sub_component_setup input1 input2 =
     (let container = Component ''container'' [] [];
          a = Dummy1To1 ''A'';
          b = Dummy1To1 ''B'';
          c = Dummy1To1 ''C'';
          d = Dummy2To1 ''D''
      in case add_components container [a, b, c, d] of
           Inl e \<Rightarrow> Inl e
         | Inr container \<Rightarrow>
             ComponentTest_test (rlgraph_api container ''run'' container_run)
               ''run'' [input1, input2])"

section \<open>Structured op containers\<close>

text \<open>
  Modelled from the spec: the container code is not among the sources. A container is
  "a tree whose leaves are backend operations/values and whose internal nodes are
  ordered mappings or fixed-arity tuples". A leaf is reached by its tree path: the keys
  of the mappings and the positions in the tuples passed on the way.
\<close>

datatype step = Key string | Index nat

type_synonym path = "step list"

datatype 'a container =
    Leaf 'a
  | Dict "(string \<times> 'a container) list"
  | Tuple "'a container list"

lemma size_dict_child:
  "(key, c) \<in> set kvs \<Longrightarrow> size c < Suc (size_list (size_prod (\<lambda>_. 0) size) kvs)"
  by (induction kvs) auto

lemma size_tuple_child:
  "(i, c) \<in> set (enumerate n cs) \<Longrightarrow> size c < Suc (size_list size cs)"
proof -
  assume "(i, c) \<in> set (enumerate n cs)"
  then have "c \<in> set cs"
    by (auto simp: in_set_enumerate_eq)
  then have "size c \<le> size_list size cs"
    by (simp add: size_list_estimation')
  then show ?thesis by simp
qed

text \<open>
  \<open>flatten(container) -> mapping[leaf_key -> leaf_op]\<close>, the mapping in the order of
  the traversal. "Flatten keys are stable strings derived from the tree path": how a
  path is written as a string is the parameter \<open>key_of\<close>.
\<close>

function flatten_at ::
  "(path \<Rightarrow> string) \<Rightarrow> path \<Rightarrow> 'a container \<Rightarrow> (string \<times> 'a) list" where
  "flatten_at key_of p (Leaf v) = [(key_of p, v)]"
| "flatten_at key_of p (Dict kvs) =
     concat (map (\<lambda>(key, c). flatten_at key_of (p @ [Key key]) c) kvs)"
| "flatten_at key_of p (Tuple cs) =
     concat (map (\<lambda>(i, c). flatten_at key_of (p @ [Index i]) c) (enumerate 0 cs))"
  by pat_completeness auto
termination
  by (relation "measure (\<lambda>(key_of, p, c). size c)")
    (auto dest: size_dict_child size_tuple_child)

definition flatten :: "(path \<Rightarrow> string) \<Rightarrow> 'a container \<Rightarrow> (string \<times> 'a) list" where
  "flatten key_of c = flatten_at key_of [] c"












section \<open>Facts about the backend operations\<close>


lemma shape_map_tensor: "shape (map_tensor f t) = shape t"
  by (simp add: map_tensor_def)

lemma rows_Nil [simp]: "rows n [] = []"
  by (subst rows.simps) simp

lemma rows_zero [simp]: "rows 0 xs = []"
  by (subst rows.simps) simp

lemma rows_Cons [simp]:
  "0 < n \<Longrightarrow> rows n (x # xs) = take n (x # xs) # rows n (drop n (x # xs))"
  by (subst rows.simps) simp

lemma concat_rows: "0 < n \<Longrightarrow> concat (rows n xs) = xs"
proof (induction n xs rule: rows.induct)
  case (1 n xs)
  show ?case
  proof (cases xs)
    case Nil
    then show ?thesis by simp
  next
    case (Cons y ys)
    with 1 have "concat (rows n (drop n xs)) = drop n xs" by simp
    with Cons 1(2) show ?thesis by (simp del: take_Suc_Cons drop_Suc_Cons)
  qed
qed

lemma set_rows_subset: "r \<in> set (rows n xs) \<Longrightarrow> set r \<subseteq> set xs"
proof (induction n xs rule: rows.induct)
  case (1 n xs)
  show ?case
  proof (cases "n = 0 \<or> xs = []")
    case True
    with 1(2) show ?thesis by auto
  next
    case False
    then have "rows n xs = take n xs # rows n (drop n xs)"
      by (subst rows.simps) simp
    with 1(2) have "r = take n xs \<or> r \<in> set (rows n (drop n xs))"
      by simp
    then show ?thesis
    proof
      assume "r = take n xs"
      then show ?thesis by (simp add: set_take_subset)
    next
      assume "r \<in> set (rows n (drop n xs))"
      with 1(1) False have "set r \<subseteq> set (drop n xs)" by blast
      moreover have "set (drop n xs) \<subseteq> set xs" by (rule set_drop_subset)
      ultimately show ?thesis by blast
    qed
  qed
qed

lemma set_slice_last: "set (elems (slice_last start len t)) \<subseteq> set (elems t)"
proof
  fix x assume "x \<in> set (elems (slice_last start len t))"
  then have "x \<in> set (concat (map (\<lambda>r. take len (drop start r)) (rows (last (shape t)) (elems t))))"
    by (simp add: slice_last_def)
  then obtain r where r: "r \<in> set (rows (last (shape t)) (elems t))"
    and x: "x \<in> set (take len (drop start r))"
    unfolding set_concat by auto
  from x have "x \<in> set (drop start r)" by (rule in_set_takeD)
  then have "x \<in> set r" by (rule in_set_dropD)
  with set_rows_subset[OF r] show "x \<in> set (elems t)" by blast
qed



lemma Beta_log_argument_elems:
  "elems (Beta_log_argument p) = map (\<lambda>x. exp x + 1) (elems p)"
  by (simp add: Beta_log_argument_def map_tensor_def)

lemma Beta_log_argument_pos: "list_all (\<lambda>x. 0 < x) (elems (Beta_log_argument p))"
  by (simp add: Beta_log_argument_elems list_all_iff add_pos_pos)

lemma Beta_stabilize_Inr:
  "Beta_stabilize p =
     Inr \<lparr>shape = shape p, elems = map (\<lambda>x. ln (exp x + 1) + 1) (elems p), batch_rank = None\<rparr>"
  using Beta_log_argument_pos [of p]
  by (simp add: Beta_stabilize_def backend_log_def Beta_log_argument_def map_tensor_def)

lemma tf_split2_Inr:
  "tf_split2 t = Inr (a, b) \<Longrightarrow>
     a = slice_last 0 (last (shape t) div 2) t \<and>
     b = slice_last (last (shape t) div 2) (last (shape t) div 2) t"
  by (simp add: tf_split2_def Let_def split: if_splits)

lemma tf_split2_elems:
  assumes "tf_split2 t = Inr (a, b)"
  shows "set (elems a) \<subseteq> set (elems t)" "set (elems b) \<subseteq> set (elems t)"
  using tf_split2_Inr [OF assms] set_slice_last by simp_all

lemma tf_squeeze_last_elems: "tf_squeeze_last t = Inr u \<Longrightarrow> elems u = elems t"
  by (auto simp: tf_squeeze_last_def split: if_splits)

lemma Beta_parameters_tf_result:
  assumes "Beta_parameters_tf S far x = Inr r"
  shows "\<exists>a b. r = (Some (DataOpTuple [a, b]), None, None) \<and>
           batch_rank a = Some 0 \<and> batch_rank b = Some 0 \<and>
           set (elems a) \<subseteq> (\<lambda>v. ln (exp v + 1) + 1) ` set (elems (tf_clip_by_value x (ln S) (- ln S))) \<and>
           set (elems b) \<subseteq> (\<lambda>v. ln (exp v + 1) + 1) ` set (elems (tf_clip_by_value x (ln S) (- ln S)))"
proof -
  let ?p = "\<lparr>shape = shape (tf_clip_by_value x (ln S) (- ln S)),
              elems = map (\<lambda>v. ln (exp v + 1) + 1) (elems (tf_clip_by_value x (ln S) (- ln S))),
              batch_rank = None\<rparr>"
  from assms have S: "py_log S = Inr (ln S)"
    by (auto simp: Beta_parameters_tf_def py_log_def split: if_splits)
  from assms S obtain a0 b0 where sp: "tf_split2 ?p = Inr (a0, b0)"
    by (auto simp: Beta_parameters_tf_def Beta_stabilize_Inr split: sum.splits)
  have sub: "set (elems a0) \<subseteq> set (elems ?p)" "set (elems b0) \<subseteq> set (elems ?p)"
    using tf_split2_elems [OF sp] by blast+
  from assms S sp obtain a1 b1 where
    r: "r = (Some (DataOpTuple [a1\<lparr>batch_rank := Some 0\<rparr>, b1\<lparr>batch_rank := Some 0\<rparr>]), None, None)"
    and ab: "elems a1 = elems a0" "elems b1 = elems b0"
    by (auto simp: Beta_parameters_tf_def Beta_stabilize_Inr
          split: sum.splits if_splits dest: tf_squeeze_last_elems)
  show ?thesis using r ab sub by auto
qed

lemma Beta_parameters_tf_returns:
  assumes "0 < S" "shape x \<noteq> []" "even (last (shape x))"
    and "far = length (shape x) \<or> (Suc far = length (shape x) \<and> last (shape x) = 2)"
  shows "\<exists>a b. Beta_parameters_tf S far x = Inr (Some (DataOpTuple [a, b]), None, None)"
  using assms
  by (auto simp: Beta_parameters_tf_def Beta_stabilize_Inr py_log_def tf_split2_def
        tf_clip_by_value_def map_tensor_def slice_last_def rank_def tf_squeeze_last_def Let_def)

lemma Beta_parameters_torch_raises: "\<exists>e. Beta_parameters_torch S far x = Inl e"
  by (auto simp: Beta_parameters_torch_def split: sum.splits list.splits)

section \<open>Facts about the Categorical branch\<close>

lemma sum_list_exp_pos: "r \<noteq> [] \<Longrightarrow> 0 < sum_list (map exp (r :: real list))"
proof (induction r)
  case Nil
  then show ?case by simp
next
  case (Cons a r)
  have "0 \<le> sum_list (map exp r)" by (rule sum_list_nonneg) auto
  then have "0 < exp a + sum_list (map exp r)" by (rule add_pos_nonneg [OF exp_gt_zero])
  then show ?case by simp
qed

lemma exp_le_sum_list_exp: "x \<in> set r \<Longrightarrow> exp x \<le> sum_list (map exp (r :: real list))"
proof (induction r)
  case Nil
  then show ?case by simp
next
  case (Cons a r)
  have nn: "0 \<le> sum_list (map exp r)" by (rule sum_list_nonneg) auto
  show ?case
  proof (cases "x = a")
    case True
    with nn show ?thesis by simp
  next
    case False
    with Cons have "exp x \<le> sum_list (map exp r)" by simp
    then have "exp x \<le> exp a + sum_list (map exp r)"
      using exp_ge_zero [of a] by linarith
    then show ?thesis by simp
  qed
qed

lemma softmax_row_bounds:
  assumes "v \<in> set (softmax_row r)"
  shows "0 < v \<and> v \<le> 1"
proof -
  from assms obtain x where x: "x \<in> set r" and v: "v = exp x / sum_list (map exp r)"
    by (auto simp: softmax_row_def)
  from x have "r \<noteq> []" by auto
  then have pos: "0 < sum_list (map exp r)" by (rule sum_list_exp_pos)
  from exp_le_sum_list_exp [OF x] pos show ?thesis unfolding v by simp
qed

lemma softmax_rows_bounds:
  "v \<in> set (concat (map softmax_row R)) \<Longrightarrow> 0 < v \<and> v \<le> 1"
  using softmax_row_bounds by auto

lemma clamped_probs_pos:
  "list_all (\<lambda>x. 0 < x) (map (\<lambda>x. max x c) (concat (map softmax_row R)))"
  unfolding list_all_iff using softmax_rows_bounds by fastforce

lemma Categorical_tf_result:
  "Categorical_graph_fn_get_parameters_from_adapter_outputs ''tf'' S St x =
     (if shape x = [] then Inl InvalidArgumentError
      else Inr (x\<lparr>batch_rank := Some 0\<rparr>,
            Some \<lparr>shape = shape x,
                  elems = map (\<lambda>v. max v S)
                     (concat (map softmax_row (rows (last (shape x)) (elems x)))),
                  batch_rank = Some 0\<rparr>,
            Some \<lparr>shape = shape x,
                  elems = map ln (map (\<lambda>v. max v S)
                     (concat (map softmax_row (rows (last (shape x)) (elems x))))),
                  batch_rank = Some 0\<rparr>))"
  using clamped_probs_pos [of S "rows (last (shape x)) (elems x)"]
  by (simp add: Categorical_graph_fn_get_parameters_from_adapter_outputs_def tf_softmax_def
        backend_log_def map_tensor_def Let_def)

lemma Categorical_torch_result:
  "Categorical_graph_fn_get_parameters_from_adapter_outputs ''pytorch'' S St x =
     Inr (x,
          Some \<lparr>shape = shape x,
                elems = map (\<lambda>v. max v St)
                   (concat (map softmax_row
                      (rows (if shape x = [] then 1 else last (shape x)) (elems x)))),
                batch_rank = None\<rparr>,
          Some \<lparr>shape = shape x,
                elems = map ln (map (\<lambda>v. max v St)
                   (concat (map softmax_row
                      (rows (if shape x = [] then 1 else last (shape x)) (elems x))))),
                batch_rank = None\<rparr>)"
  using clamped_probs_pos [of St "rows (if shape x = [] then 1 else last (shape x)) (elems x)"]
  by (simp add: Categorical_graph_fn_get_parameters_from_adapter_outputs_def torch_softmax_def
        backend_log_def map_tensor_def Let_def)


section \<open>What the two graph functions return\<close>





lemma Beta_graph_fn_tf_returns:
  assumes "0 < S" "shape x \<noteq> []" "even (last (shape x))"
    and "full_rank action_space = length (shape x)
         \<or> (Suc (full_rank action_space) = length (shape x) \<and> last (shape x) = 2)"
  shows "\<exists>alpha beta. Beta_graph_fn_get_parameters_from_adapter_outputs ''tf'' S action_space x = Inr (Some (DataOpTuple [alpha, beta]), None, None)"
  using Beta_parameters_tf_returns [OF assms]
  by (simp add: Beta_graph_fn_get_parameters_from_adapter_outputs_def)



section \<open>Positivity of the adapter outputs\<close>




section \<open>Arguments of the logarithms\<close>




section \<open>Shape of the returned tuples\<close>

text \<open>
  Claim C6. The Beta adapter is to return \<open>(parameters, None, None)\<close> for every
  input. Its PyTorch branch does not: for a scalar action space and a batch of two
  outputs of width 2, the split size is \<open>int(2 / 2) = 1\<close>, the split yields the two
  chunks \<open>alpha\<close> and \<open>beta\<close>, and \<open>list(alpha.size)\<close> raises \<open>TypeError\<close>.
  The TensorFlow branch returns the tuple of \<open>alpha\<close> and \<open>beta\<close> on the same input.
\<close>

theorem Beta_pytorch_raises_where_tf_returns:
  "Beta_graph_fn_get_parameters_from_adapter_outputs ''pytorch'' (1 / 1000000)
      \<lparr>space_shape = [], flat_dim = 1, num_categories = 0, flat_dim_with_categories = 0,
       shape_with_category_rank = [], full_rank = 1\<rparr>
      \<lparr>shape = [2, 2], elems = [0, 0, 0, 0], batch_rank = None\<rparr>
     = Inl TypeError
   \<and> (\<exists>alpha beta.
        Beta_graph_fn_get_parameters_from_adapter_outputs ''tf'' (1 / 1000000)
          \<lparr>space_shape = [], flat_dim = 1, num_categories = 0, flat_dim_with_categories = 0,
           shape_with_category_rank = [], full_rank = 1\<rparr>
          \<lparr>shape = [2, 2], elems = [0, 0, 0, 0], batch_rank = None\<rparr>
         = Inr (Some (DataOpTuple [alpha, beta]), None, None))"
proof -
  let ?sp = "\<lparr>space_shape = [], flat_dim = 1, num_categories = 0, flat_dim_with_categories = 0,
       shape_with_category_rank = [], full_rank = 1\<rparr>"
  let ?x = "\<lparr>shape = [2, 2], elems = [0, 0, 0, 0], batch_rank = None\<rparr>"
  have 1: "Beta_graph_fn_get_parameters_from_adapter_outputs ''pytorch'' (1 / 1000000) ?sp ?x = Inl TypeError"
    by (simp add: Beta_graph_fn_get_parameters_from_adapter_outputs_def Beta_parameters_torch_def py_log_def Beta_stabilize_Inr
          torch_clamp_def map_tensor_def torch_split_def Let_def upt_rec)
  have 2: "\<exists>alpha beta. Beta_graph_fn_get_parameters_from_adapter_outputs ''tf'' (1 / 1000000) ?sp ?x
      = Inr (Some (DataOpTuple [alpha, beta]), None, None)"
    by (rule Beta_graph_fn_tf_returns) simp_all
  from 1 2 show ?thesis by blast
qed

text \<open>
  Under PyTorch the Beta adapter never returns: every path through the branch ends in
  an exception, the last of them the \<open>TypeError\<close> of \<open>list(alpha.size)\<close>.
\<close>

theorem Beta_pytorch_branch_always_raises:
  "\<exists>e. Beta_graph_fn_get_parameters_from_adapter_outputs ''pytorch'' SMALL_NUMBER action_space adapter_outputs = Inl e"
  using Beta_parameters_torch_raises [of SMALL_NUMBER "full_rank action_space" adapter_outputs]
  by (simp add: Beta_graph_fn_get_parameters_from_adapter_outputs_def)

text \<open>
  On the paths that return, the results are the triples of the docstrings. Under
  TensorFlow the Beta adapter returns \<open>(DataOpTuple [alpha, beta], None, None)\<close> and
  nothing else, and it returns for every input with an even last axis whose halves have
  the full action-space rank, or one more with width 1. The Categorical adapter returns
  \<open>(parameters, probs, log_probs)\<close> with its input as parameters and the logarithms
  of the probabilities as log-probabilities, under TensorFlow for inputs of rank at
  least 1 and under PyTorch for every input.
\<close>

theorem returned_triples_on_returning_paths:
  "(0 < SMALL_NUMBER \<and> shape adapter_outputs \<noteq> [] \<and> even (last (shape adapter_outputs))
      \<and> (full_rank action_space = length (shape adapter_outputs)
           \<or> (Suc (full_rank action_space) = length (shape adapter_outputs)
               \<and> last (shape adapter_outputs) = 2))
      \<longrightarrow> (\<exists>alpha beta.
            Beta_graph_fn_get_parameters_from_adapter_outputs ''tf'' SMALL_NUMBER action_space adapter_outputs
              = Inr (Some (DataOpTuple [alpha, beta]), None, None)))
   \<and> (\<forall>r. Beta_graph_fn_get_parameters_from_adapter_outputs ''tf'' SMALL_NUMBER action_space adapter_outputs = Inr r
        \<longrightarrow> (\<exists>alpha beta. r = (Some (DataOpTuple [alpha, beta]), None, None)))
   \<and> (shape adapter_outputs \<noteq> []
        \<longrightarrow> (\<exists>probs log_probs.
              Categorical_graph_fn_get_parameters_from_adapter_outputs ''tf'' SMALL_NUMBER SMALL_NUMBER_TORCH adapter_outputs
                = Inr (adapter_outputs\<lparr>batch_rank := Some 0\<rparr>, Some probs, Some log_probs)
              \<and> elems log_probs = map ln (elems probs)))
   \<and> (\<exists>probs log_probs.
        Categorical_graph_fn_get_parameters_from_adapter_outputs ''pytorch'' SMALL_NUMBER SMALL_NUMBER_TORCH adapter_outputs
          = Inr (adapter_outputs, Some probs, Some log_probs)
        \<and> elems log_probs = map ln (elems probs))"
  (is "?A \<and> ?B \<and> ?C \<and> ?D")
proof -
  have A: ?A
    using Beta_graph_fn_tf_returns [of SMALL_NUMBER adapter_outputs action_space] by blast
  have B: ?B
  proof (intro allI impI)
    fix r
    assume "Beta_graph_fn_get_parameters_from_adapter_outputs ''tf'' SMALL_NUMBER action_space adapter_outputs = Inr r"
    then have "Beta_parameters_tf SMALL_NUMBER (full_rank action_space) adapter_outputs = Inr r"
      by (simp add: Beta_graph_fn_get_parameters_from_adapter_outputs_def)
    from Beta_parameters_tf_result [OF this]
    show "\<exists>alpha beta. r = (Some (DataOpTuple [alpha, beta]), None, None)" by blast
  qed
  have C: ?C by (simp add: Categorical_tf_result)
  have D: ?D by (simp add: Categorical_torch_result)
  from A B C D show ?thesis by blast
qed

theorem returned_triples_on_returning_paths_witness:
  "(\<exists>alpha beta.
      Beta_graph_fn_get_parameters_from_adapter_outputs ''tf'' (1 / 1000000)
        \<lparr>space_shape = [], flat_dim = 1, num_categories = 0, flat_dim_with_categories = 0,
         shape_with_category_rank = [], full_rank = 1\<rparr>
        \<lparr>shape = [2, 2], elems = [0, 0, 0, 0], batch_rank = None\<rparr>
        = Inr (Some (DataOpTuple [alpha, beta]), None, None))
   \<and> (\<exists>probs log_probs.
      Categorical_graph_fn_get_parameters_from_adapter_outputs ''tf'' (1 / 1000000) (1 / 1000000)
        \<lparr>shape = [2, 2], elems = [0, 0, 0, 0], batch_rank = None\<rparr>
        = Inr (\<lparr>shape = [2, 2], elems = [0, 0, 0, 0], batch_rank = Some 0\<rparr>,
               Some probs, Some log_probs)
      \<and> elems log_probs = map ln (elems probs))"
proof -
  let ?sp = "\<lparr>space_shape = [], flat_dim = 1, num_categories = 0, flat_dim_with_categories = 0,
         shape_with_category_rank = [], full_rank = 1\<rparr>"
  let ?x = "\<lparr>shape = [2, 2], elems = [0, 0, 0, 0], batch_rank = None\<rparr>"
  note t = returned_triples_on_returning_paths [of "1 / 1000000" ?x ?sp "1 / 1000000"]
  from t have a: "\<exists>alpha beta. Beta_graph_fn_get_parameters_from_adapter_outputs ''tf'' (1 / 1000000) ?sp ?x
      = Inr (Some (DataOpTuple [alpha, beta]), None, None)"
    by simp
  from t have b: "\<exists>probs log_probs.
      Categorical_graph_fn_get_parameters_from_adapter_outputs ''tf'' (1 / 1000000) (1 / 1000000) ?x
        = Inr (?x\<lparr>batch_rank := Some 0\<rparr>, Some probs, Some log_probs)
      \<and> elems log_probs = map ln (elems probs)"
    by simp
  from a b show ?thesis by simp
qed

section \<open>Units and shapes of the adapters\<close>

lemma prod_list_double_last:
  "s \<noteq> [] \<Longrightarrow> prod_list (butlast s @ [last s * 2]) = 2 * prod_list (s :: nat list)"
proof -
  assume "s \<noteq> []"
  then have "prod_list s = prod_list (butlast s @ [last s])" by simp
  then show ?thesis by simp
qed

text \<open>
  Claim C5. The pair returned by \<open>get_units_and_shape\<close> is consistent: the units are
  the product of the dimensions of the returned shape. For the Beta adapter the units
  are \<open>2 * flat_dim\<close> and the shape is \<open>(2,)\<close> for a scalar action space and the
  action-space shape with its last dimension doubled otherwise; the Categorical adapter
  returns what the action space reports. The Space class is not among the sources; its
  contract is assumed: the flat dimension is the product of the shape, the shape with
  category rank is the shape followed by the number of categories, and the flat
  dimension with categories is the flat dimension times the number of categories.
\<close>

theorem get_units_and_shape_consistent:
  assumes "flat_dim action_space = prod_list (space_shape action_space)"
    and "shape_with_category_rank action_space
           = space_shape action_space @ [num_categories action_space]"
    and "flat_dim_with_categories action_space
           = flat_dim action_space * num_categories action_space"
  shows "fst (Beta_get_units_and_shape action_space)
           = prod_list (snd (Beta_get_units_and_shape action_space))
     \<and> fst (Beta_get_units_and_shape action_space) = 2 * flat_dim action_space
     \<and> snd (Beta_get_units_and_shape action_space)
         = (if space_shape action_space = [] then [2]
            else butlast (space_shape action_space) @ [last (space_shape action_space) * 2])
     \<and> Categorical_get_units_and_shape action_space
         = (flat_dim_with_categories action_space, shape_with_category_rank action_space)
     \<and> fst (Categorical_get_units_and_shape action_space)
         = prod_list (snd (Categorical_get_units_and_shape action_space))"
  using assms prod_list_double_last [of "space_shape action_space"]
  by (simp add: Beta_get_units_and_shape_def Categorical_get_units_and_shape_def Let_def)

theorem get_units_and_shape_consistent_witness:
  "(12 :: nat) = prod_list [3, 4]
   \<and> Beta_get_units_and_shape \<lparr>space_shape = [3, 4], flat_dim = 12, num_categories = 5, flat_dim_with_categories = 60,
       shape_with_category_rank = [3, 4, 5], full_rank = 3\<rparr> = (24, [3, 8])
   \<and> fst (Beta_get_units_and_shape \<lparr>space_shape = [3, 4], flat_dim = 12, num_categories = 5, flat_dim_with_categories = 60,
       shape_with_category_rank = [3, 4, 5], full_rank = 3\<rparr>) = prod_list (snd (Beta_get_units_and_shape \<lparr>space_shape = [3, 4], flat_dim = 12, num_categories = 5, flat_dim_with_categories = 60,
       shape_with_category_rank = [3, 4, 5], full_rank = 3\<rparr>))
   \<and> Categorical_get_units_and_shape \<lparr>space_shape = [3, 4], flat_dim = 12, num_categories = 5, flat_dim_with_categories = 60,
       shape_with_category_rank = [3, 4, 5], full_rank = 3\<rparr> = (60, [3, 4, 5])
   \<and> fst (Categorical_get_units_and_shape \<lparr>space_shape = [3, 4], flat_dim = 12, num_categories = 5, flat_dim_with_categories = 60,
       shape_with_category_rank = [3, 4, 5], full_rank = 3\<rparr>)
       = prod_list (snd (Categorical_get_units_and_shape \<lparr>space_shape = [3, 4], flat_dim = 12, num_categories = 5, flat_dim_with_categories = 60,
       shape_with_category_rank = [3, 4, 5], full_rank = 3\<rparr>))"
proof -
  let ?sp = "\<lparr>space_shape = [3, 4], flat_dim = 12, num_categories = 5, flat_dim_with_categories = 60,
       shape_with_category_rank = [3, 4, 5], full_rank = 3\<rparr>"
  have h: "flat_dim ?sp = prod_list (space_shape ?sp)"
    "shape_with_category_rank ?sp = space_shape ?sp @ [num_categories ?sp]"
    "flat_dim_with_categories ?sp = flat_dim ?sp * num_categories ?sp"
    by simp_all
  from get_units_and_shape_consistent [OF h] show ?thesis
    by (simp add: Beta_get_units_and_shape_def Categorical_get_units_and_shape_def Let_def)
qed

section \<open>The apply method of a Layer\<close>

text \<open>
  Claim C10. Every Layer registers, when it is constructed, an API method named
  \<open>apply\<close> backed by its \<open>_graph_fn_apply\<close>, with \<open>flatten_ops\<close> and
  \<open>split_ops\<close> both switched on. The \<open>_graph_fn_apply\<close> of the base class returns
  its inputs unchanged, so the function registered by a Layer that does not override it
  is the identity on its inputs.
\<close>

theorem Layer_registers_apply:
  "yarl_api_methods (Layer_init graph_fn_apply kwargs) ''apply''
     = Some \<lparr>func = graph_fn_apply, flatten_ops = True, split_ops = True\<rparr>
   \<and> Layer_graph_fn_apply inputs = inputs
   \<and> (\<exists>m. yarl_api_methods (Layer_init Layer_graph_fn_apply kwargs) ''apply'' = Some m
          \<and> func m inputs = inputs \<and> flatten_ops m \<and> split_ops m)"
  by (simp add: Layer_init_def define_api_method_def Component_init_def Layer_graph_fn_apply_def)

section \<open>Composition through the entry point\<close>

lemma Dummy1To1_run: "call_api (Dummy1To1 s) ''run'' [x] = Inr [x + 1]"
  by (simp add: call_api.simps Dummy1To1_def)

lemma Dummy2To1_run: "call_api (Dummy2To1 s) ''run'' [x, y] = Inr [x + y]"
  by (simp add: call_api.simps Dummy2To1_def)

lemma two_1to1_general:
  "test_connecting_two_1to1_components x = Inr [x + 2]"
  by (simp add: test_connecting_two_1to1_components_def Let_def ComponentTest_test_def
        build_def rlgraph_api_def call_api.simps [of "Component _ _ _"] two_1to1_run_def
        Dummy1To1_run)
    (simp add: Dummy1To1_def)

lemma diamond_general:
  "test_diamond_4x_sub_component_setup x y = Inr [x + y + 4]"
  by (simp add: test_diamond_4x_sub_component_setup_def Let_def ComponentTest_test_def
        build_def rlgraph_api_def call_api.simps [of "Component _ _ _"] container_run_def
        Dummy1To1_def Dummy2To1_def)

text \<open>
  Claim C2. Two 1-to-1 components that each add 1.0, chained in the \<open>run\<close> method of
  their container and invoked through the built entry point, send 1.1 to 3.1 and -5.1 to
  -3.1; every input comes back increased by 2.
\<close>

theorem two_1to1_components_chain:
  "test_connecting_two_1to1_components 1.1 = Inr [3.1]
   \<and> test_connecting_two_1to1_components (- 5.1) = Inr [- 3.1]
   \<and> test_connecting_two_1to1_components input = Inr [(input + 1) + 1]"
  by (simp add: two_1to1_general)

text \<open>
  Claim C3. In the diamond, A adds 1.0 to each of the two inputs, B and C add 1.0 to the
  respective results, and D sums the two branches: the built entry point sends the pair
  (1.1, 0.5) to 5.6.
\<close>

theorem diamond_composition:
  "test_diamond_4x_sub_component_setup 1.1 0.5 = Inr [5.6]
   \<and> test_diamond_4x_sub_component_setup input1 input2
       = Inr [((input1 + 1) + 1) + ((input2 + 1) + 1)]"
  by (simp add: diamond_general)

section \<open>Flatten and unflatten\<close>


















end
